theory Spec2Isabelle
  imports Complex_Main "HOL-Library.Signed_Division"
begin

section \<open>Domain tables\<close>

text \<open>
  The repository ships the same engine in three deployment variants. \<^verbatim>\<open>server.ts\<close> and
  \<^verbatim>\<open>part_003\<close> select stem and branch with a bare \<^verbatim>\<open>%\<close> and locate solar terms with a
  single-term probe; \<^verbatim>\<open>part_002\<close> makes the remainder non-negative and locates solar terms
  with a year check. The bodies of \<^verbatim>\<open>WuYunLiuQi\<close> and \<^verbatim>\<open>AHIEngine\<close> are the same text in
  all three (up to the constants of \<^verbatim>\<open>_calcBaseScore\<close> in \<^verbatim>\<open>part_003\<close>). The embedding
  takes the variant as a parameter wherever the text differs.

  The Chinese glyphs of the source are written in pinyin, one string per glyph (with a
  tone digit where two glyphs of a table would share the syllable), so that
  \<^verbatim>\<open>display_name.substring(0, 2)\<close> is \<open>take 2\<close> on a list of glyphs.
  JavaScript numbers are modelled exactly: integers as \<open>int\<close>, fractional scores as
  \<open>rat\<close> (the rounding error of IEEE doubles is not modelled).
\<close>

datatype variant = Simple | HighPrecision

type_synonym glyph = string

datatype Element = WOOD | FIRE | EARTH | METAL | WATER

fun ElementGeneration :: "Element \<Rightarrow> Element" where
  "ElementGeneration WOOD = FIRE"
| "ElementGeneration FIRE = EARTH"
| "ElementGeneration EARTH = METAL"
| "ElementGeneration METAL = WATER"
| "ElementGeneration WATER = WOOD"

fun ElementOvercomes :: "Element \<Rightarrow> Element" where
  "ElementOvercomes WOOD = EARTH"
| "ElementOvercomes EARTH = WATER"
| "ElementOvercomes WATER = FIRE"
| "ElementOvercomes FIRE = METAL"
| "ElementOvercomes METAL = WOOD"

fun ElementOvercomer :: "Element \<Rightarrow> Element" where
  "ElementOvercomer WOOD = METAL"
| "ElementOvercomer METAL = FIRE"
| "ElementOvercomer FIRE = WATER"
| "ElementOvercomer WATER = EARTH"
| "ElementOvercomer EARTH = WOOD"

datatype Adequacy = EXCESS | DEFICIENCY

text \<open>
  The static members of \<^verbatim>\<open>HeavenlyStem\<close>, \<^verbatim>\<open>EarthlyBranch\<close> and \<^verbatim>\<open>QiType\<close> are fixed
  objects; each is a constructor here and its fields are functions of it. The branch
  \<^verbatim>\<open>EarthlyBranch.WU\<close> is \<open>WU_branch\<close>, since \<^verbatim>\<open>HeavenlyStem.WU\<close> has the name already.
\<close>

datatype HeavenlyStem = JIA | YI | BING | DING | WU | JI | GENG | XIN | REN | GUI

fun stem_index :: "HeavenlyStem \<Rightarrow> int" where
  "stem_index JIA = 0" | "stem_index YI = 1" | "stem_index BING = 2"
| "stem_index DING = 3" | "stem_index WU = 4" | "stem_index JI = 5"
| "stem_index GENG = 6" | "stem_index XIN = 7" | "stem_index REN = 8"
| "stem_index GUI = 9"

fun stem_char :: "HeavenlyStem \<Rightarrow> glyph" where
  "stem_char JIA = ''jia''" | "stem_char YI = ''yi''" | "stem_char BING = ''bing''"
| "stem_char DING = ''ding''" | "stem_char WU = ''wu4''" | "stem_char JI = ''ji''"
| "stem_char GENG = ''geng''" | "stem_char XIN = ''xin''" | "stem_char REN = ''ren''"
| "stem_char GUI = ''gui''"

fun stem_element :: "HeavenlyStem \<Rightarrow> Element" where
  "stem_element JIA = EARTH" | "stem_element YI = METAL" | "stem_element BING = WATER"
| "stem_element DING = WOOD" | "stem_element WU = FIRE" | "stem_element JI = EARTH"
| "stem_element GENG = METAL" | "stem_element XIN = WATER" | "stem_element REN = WOOD"
| "stem_element GUI = FIRE"

fun stem_adequacy :: "HeavenlyStem \<Rightarrow> Adequacy" where
  "stem_adequacy JIA = EXCESS" | "stem_adequacy YI = DEFICIENCY"
| "stem_adequacy BING = EXCESS" | "stem_adequacy DING = DEFICIENCY"
| "stem_adequacy WU = EXCESS" | "stem_adequacy JI = DEFICIENCY"
| "stem_adequacy GENG = EXCESS" | "stem_adequacy XIN = DEFICIENCY"
| "stem_adequacy REN = EXCESS" | "stem_adequacy GUI = DEFICIENCY"

definition HeavenlyStem_list :: "HeavenlyStem list" where
  "HeavenlyStem_list = [JIA, YI, BING, DING, WU, JI, GENG, XIN, REN, GUI]"

datatype EarthlyBranch =
  ZI | CHOU | YIN | MAO | CHEN | SI | WU_branch | WEI | SHEN | YOU | XU | HAI

fun branch_index :: "EarthlyBranch \<Rightarrow> int" where
  "branch_index ZI = 0" | "branch_index CHOU = 1" | "branch_index YIN = 2"
| "branch_index MAO = 3" | "branch_index CHEN = 4" | "branch_index SI = 5"
| "branch_index WU_branch = 6" | "branch_index WEI = 7" | "branch_index SHEN = 8"
| "branch_index YOU = 9" | "branch_index XU = 10" | "branch_index HAI = 11"

fun branch_char :: "EarthlyBranch \<Rightarrow> glyph" where
  "branch_char ZI = ''zi''" | "branch_char CHOU = ''chou''" | "branch_char YIN = ''yin2''"
| "branch_char MAO = ''mao''" | "branch_char CHEN = ''chen''" | "branch_char SI = ''si''"
| "branch_char WU_branch = ''wu3''" | "branch_char WEI = ''wei''"
| "branch_char SHEN = ''shen''" | "branch_char YOU = ''you''" | "branch_char XU = ''xu''"
| "branch_char HAI = ''hai''"

fun branch_element :: "EarthlyBranch \<Rightarrow> Element" where
  "branch_element ZI = WATER" | "branch_element CHOU = EARTH" | "branch_element YIN = WOOD"
| "branch_element MAO = WOOD" | "branch_element CHEN = EARTH" | "branch_element SI = FIRE"
| "branch_element WU_branch = FIRE" | "branch_element WEI = EARTH"
| "branch_element SHEN = METAL" | "branch_element YOU = METAL"
| "branch_element XU = EARTH" | "branch_element HAI = WATER"

definition EarthlyBranch_list :: "EarthlyBranch list" where
  "EarthlyBranch_list =
     [ZI, CHOU, YIN, MAO, CHEN, SI, WU_branch, WEI, SHEN, YOU, XU, HAI]"

text \<open>
  Reading a JavaScript array at an index: a missing index, negative or past the end,
  gives \<^verbatim>\<open>undefined\<close>, here \<open>None\<close>.
\<close>

definition js_index :: "'a list \<Rightarrow> int \<Rightarrow> 'a option" where
  "js_index xs i = (if 0 \<le> i \<and> i < int (length xs) then Some (xs ! nat i) else None)"

text \<open>
  \<^verbatim>\<open>fromYear\<close>. JavaScript's \<^verbatim>\<open>%\<close> truncates towards zero and takes the sign of the
  dividend: it is \<open>smod\<close>, not \<open>mod\<close>.
  \<^verbatim>\<open>server.ts\<close>: \<^verbatim>\<open>return this.list()[(year - 4) % 10];\<close>
  \<^verbatim>\<open>part_002\<close>: \<^verbatim>\<open>return this.list()[((year - 4) % 10 + 10) % 10];\<close>
\<close>

fun HeavenlyStem_fromYear :: "variant \<Rightarrow> int \<Rightarrow> HeavenlyStem option" where
  "HeavenlyStem_fromYear Simple year = js_index HeavenlyStem_list ((year - 4) smod 10)"
| "HeavenlyStem_fromYear HighPrecision year =
     js_index HeavenlyStem_list (((year - 4) smod 10 + 10) smod 10)"

fun EarthlyBranch_fromYear :: "variant \<Rightarrow> int \<Rightarrow> EarthlyBranch option" where
  "EarthlyBranch_fromYear Simple year = js_index EarthlyBranch_list ((year - 4) smod 12)"
| "EarthlyBranch_fromYear HighPrecision year =
     js_index EarthlyBranch_list (((year - 4) smod 12 + 12) smod 12)"

datatype QiType =
  WEAK_YIN_WOOD | MILD_YIN_FIRE | WEAK_YANG_FIRE
| DOMINANT_YIN_EARTH | MILD_YANG_METAL | DOMINANT_YANG_WATER

fun display_name :: "QiType \<Rightarrow> glyph list" where
  "display_name WEAK_YIN_WOOD = [''jue'', ''yin'', ''feng'', ''mu'']"
| "display_name MILD_YIN_FIRE = [''shao'', ''yin'', ''jun'', ''huo'']"
| "display_name WEAK_YANG_FIRE = [''shao'', ''yang'', ''xiang'', ''huo'']"
| "display_name DOMINANT_YIN_EARTH = [''tai'', ''yin'', ''shi'', ''tu'']"
| "display_name MILD_YANG_METAL = [''yang'', ''ming'', ''zao'', ''jin'']"
| "display_name DOMINANT_YANG_WATER = [''tai'', ''yang'', ''han'', ''shui'']"

fun factor :: "QiType \<Rightarrow> glyph" where
  "factor WEAK_YIN_WOOD = ''feng''"
| "factor MILD_YIN_FIRE = ''re''"
| "factor WEAK_YANG_FIRE = ''huo''"
| "factor DOMINANT_YIN_EARTH = ''shi''"
| "factor MILD_YANG_METAL = ''zao''"
| "factor DOMINANT_YANG_WATER = ''han''"

fun qi_element :: "QiType \<Rightarrow> Element" where
  "qi_element WEAK_YIN_WOOD = WOOD"
| "qi_element MILD_YIN_FIRE = FIRE"
| "qi_element WEAK_YANG_FIRE = FIRE"
| "qi_element DOMINANT_YIN_EARTH = EARTH"
| "qi_element MILD_YANG_METAL = METAL"
| "qi_element DOMINANT_YANG_WATER = WATER"

definition QiType_list :: "QiType list" where
  "QiType_list =
     [WEAK_YIN_WOOD, MILD_YIN_FIRE, WEAK_YANG_FIRE,
      DOMINANT_YIN_EARTH, MILD_YANG_METAL, DOMINANT_YANG_WATER]"

text \<open>\<^verbatim>\<open>Array.prototype.findIndex\<close>: the first index whose entry passes, or \<open>-1\<close>.\<close>

fun findIndex_from :: "int \<Rightarrow> ('a \<Rightarrow> bool) \<Rightarrow> 'a list \<Rightarrow> int" where
  "findIndex_from i p [] = -1"
| "findIndex_from i p (x # xs) = (if p x then i else findIndex_from (i + 1) p xs)"

definition findIndex :: "('a \<Rightarrow> bool) \<Rightarrow> 'a list \<Rightarrow> int" where
  "findIndex p xs = findIndex_from 0 p xs"

text \<open>
  \<^verbatim>\<open>QiType.previous\<close>: \<^verbatim>\<open>order[(idx - 1 + 6) % 6]\<close>. The index is between \<open>0\<close> and
  \<open>5\<close> for every \<open>idx \<ge> -1\<close> (lemma \<open>previous_index_in_range\<close>), so the read never misses.
\<close>

definition QiType_previous :: "QiType \<Rightarrow> QiType" where
  "QiType_previous qi =
     (let order = QiType_list;
          idx = findIndex (\<lambda>q. display_name q = display_name qi) order
      in order ! nat ((idx - 1 + 6) smod 6))"


section \<open>Dates and the calendar authority\<close>

text \<open>
  A JavaScript \<^verbatim>\<open>Date\<close> is modelled by its local civil fields, and \<^verbatim>\<open>a < b\<close> on two
  dates by the lexicographic order of the fields (local time at a fixed offset). The
  solar terms the authority reports are genuine civil date-times, so the constructor's
  normalisation of fields out of range (a month 13, a day 32) is not modelled.
  One rule of the constructor is kept, because small years are inputs the engine can
  receive: \<^verbatim>\<open>new Date(y, ...)\<close> with an integer \<open>0 \<le> y \<le> 99\<close> is a date of the year
  \<open>1900 + y\<close> (ECMAScript, the Date constructor: "if 0 \<le> yi \<le> 99, let yr be
  1900 + yi").
\<close>

record Date =
  getFullYear :: int
  getMonth_Date :: int
  getDate :: int
  getHours :: int
  getMinutes :: int
  getSeconds :: int

definition new_Date :: "int \<Rightarrow> int \<Rightarrow> int \<Rightarrow> int \<Rightarrow> int \<Rightarrow> int \<Rightarrow> Date" where
  "new_Date y m d h mi s =
     \<lparr>getFullYear = (if 0 \<le> y \<and> y \<le> 99 then 1900 + y else y),
      getMonth_Date = m, getDate = d, getHours = h, getMinutes = mi, getSeconds = s\<rparr>"

fun lex_less :: "int list \<Rightarrow> int list \<Rightarrow> bool" where
  "lex_less (x # xs) (y # ys) = (x < y \<or> (x = y \<and> lex_less xs ys))"
| "lex_less _ _ = False"

definition Date_fields :: "Date \<Rightarrow> int list" where
  "Date_fields d =
     [getFullYear d, getMonth_Date d, getDate d, getHours d, getMinutes d, getSeconds d]"

definition Date_less :: "Date \<Rightarrow> Date \<Rightarrow> bool" where
  "Date_less a b = lex_less (Date_fields a) (Date_fields b)"

text \<open>\<^verbatim>\<open>a >= b\<close> on two valid dates is the negation of \<^verbatim>\<open>a < b\<close>.\<close>

definition Date_ge :: "Date \<Rightarrow> Date \<Rightarrow> bool" where
  "Date_ge a b = (\<not> Date_less a b)"

text \<open>
  The object a solar-term table holds for a term name (a \<^verbatim>\<open>Solar\<close> of the package
  \<^verbatim>\<open>lunar-javascript\<close>), with the accessors the engine calls; \<open>getMonth\<close> counts from 1.
\<close>

record Solar =
  getYear :: int
  getMonth :: int
  getDay :: int
  getHour :: int
  getMinute :: int
  getSecond :: int

text \<open>
  The package \<^verbatim>\<open>lunar-javascript\<close> is not part of the repository. The engine uses it in
  one expression only,
  \<^verbatim>\<open>Solar.fromYmd(y, m, d).getLunar().getJieQiTable()[termName]\<close>,
  and the embedding takes that expression as a parameter: an authority maps year, month,
  day and term name to the entry found, to \<^verbatim>\<open>undefined\<close>, or raises.
\<close>

datatype lookup = Raises | Undefined | Found Solar

type_synonym authority = "int \<Rightarrow> int \<Rightarrow> int \<Rightarrow> string \<Rightarrow> lookup"

text \<open>
  What the request handler answers instead of a result: \<open>BadRequest\<close> is its status 400;
  the others are the exceptions its \<^verbatim>\<open>catch\<close> turns into status 500. \<open>LocateError\<close>
  carries the year and the term of the message
  \<^verbatim>\<open>`\<dots> ${year} \<dots> ${termName} \<dots>`\<close> both locators throw.
\<close>

datatype error =
  BadRequest
| UnknownTerm string
| LocateError int string
| LibraryError
| TypeError

definition Date_of_Solar :: "Solar \<Rightarrow> Date" where
  "Date_of_Solar t =
     new_Date (getYear t) (getMonth t - 1) (getDay t) (getHour t) (getMinute t) (getSecond t)"

subsection \<open>The single-term locator of \<^verbatim>\<open>server.ts\<close>\<close>

definition termMonths :: "(string \<times> int) list" where
  "termMonths =
     [(''xiaohan'', 1), (''dahan'', 1), (''lichun'', 2), (''yushui'', 2),
      (''jingzhe'', 3), (''chunfen'', 3), (''qingming'', 4), (''guyu'', 4),
      (''lixia'', 5), (''xiaoman'', 5), (''mangzhong'', 6), (''xiazhi'', 6),
      (''xiaoshu'', 7), (''dashu'', 7), (''liqiu'', 8), (''chushu'', 8),
      (''bailu'', 9), (''qiufen'', 9), (''hanlu'', 10), (''shuangjiang'', 10),
      (''lidong'', 11), (''xiaoxue'', 11), (''daxue'', 12), (''dongzhi'', 12)]"

text \<open>
  \<^verbatim>\<open>for (const d of testDays) { ...; jieqiObj = table[termName]; if (jieqiObj) break; }\<close>
  There is no \<^verbatim>\<open>try\<close> here: an exception of the authority leaves the function.
\<close>

fun probeDays :: "authority \<Rightarrow> int \<Rightarrow> int \<Rightarrow> string \<Rightarrow> int list \<Rightarrow> error + Solar option" where
  "probeDays L year m termName [] = Inr None"
| "probeDays L year m termName (d # ds) =
     (case L year m d termName of
        Raises \<Rightarrow> Inl LibraryError
      | Found jieqiObj \<Rightarrow> Inr (Some jieqiObj)
      | Undefined \<Rightarrow> probeDays L year m termName ds)"

definition getExactJieqi_Simple :: "authority \<Rightarrow> int \<Rightarrow> string \<Rightarrow> error + Date" where
  "getExactJieqi_Simple L year termName =
     (case map_of termMonths termName of
        None \<Rightarrow> Inl (UnknownTerm termName)
      | Some m \<Rightarrow>
          (case probeDays L year m termName [15, 5, 25] of
             Inl e \<Rightarrow> Inl e
           | Inr None \<Rightarrow> Inl (LocateError year termName)
           | Inr (Some jieqiObj) \<Rightarrow> Inr (Date_of_Solar jieqiObj)))"

subsection \<open>The year-checked locator of \<^verbatim>\<open>part_002\<close>\<close>

definition monthMap :: "(string \<times> int) list" where
  "monthMap =
     [(''dahan'', 1), (''chunfen'', 3), (''xiaoman'', 5), (''mangzhong'', 6),
      (''dashu'', 7), (''chushu'', 8), (''qiufen'', 9), (''xiaoxue'', 11),
      (''lidong'', 11)]"

text \<open>
  \<^verbatim>\<open>if (mon < 1) { y -= 1; mon = 12; }  if (mon > 12) { y += 1; mon = 1; }\<close>
\<close>

definition wrapMonth :: "int \<times> int \<Rightarrow> int \<times> int" where
  "wrapMonth pos =
     (let (y, mon) = pos;
          (y, mon) = (if mon < 1 then (y - 1, 12) else (y, mon))
      in if mon > 12 then (y + 1, 1) else (y, mon))"

text \<open>
  One loop over candidate months, each probed on the 15th:
  \<^verbatim>\<open>if (term && term.getYear() === year) return new Date(...)\<close>.
  Both loops stand inside one \<^verbatim>\<open>try\<close>, whose \<^verbatim>\<open>catch\<close> only logs: an exception of the
  authority ends the search, and the function goes on to its final \<^verbatim>\<open>throw\<close>.
\<close>

fun probeMonths :: "authority \<Rightarrow> int \<Rightarrow> string \<Rightarrow> (int \<times> int) list \<Rightarrow> lookup" where
  "probeMonths L year termName [] = Undefined"
| "probeMonths L year termName ((y, mon) # rest) =
     (case L y mon 15 termName of
        Raises \<Rightarrow> Raises
      | Found term \<Rightarrow>
          if getYear term = year then Found term else probeMonths L year termName rest
      | Undefined \<Rightarrow> probeMonths L year termName rest)"

definition checkMonths :: "int \<Rightarrow> int \<Rightarrow> (int \<times> int) list" where
  "checkMonths year m = [(year, m), (year, m - 1), (year, m + 1), (year - 1, 12)]"

definition getExactJieqi_HighPrecision :: "authority \<Rightarrow> int \<Rightarrow> string \<Rightarrow> error + Date" where
  "getExactJieqi_HighPrecision L year termName =
     (let m = (case map_of monthMap termName of Some m \<Rightarrow> m | None \<Rightarrow> 6)
      in case probeMonths L year termName (map wrapMonth (checkMonths year m)) of
           Found term \<Rightarrow> Inr (Date_of_Solar term)
         | Raises \<Rightarrow> Inl (LocateError year termName)
         | Undefined \<Rightarrow>
             (case probeMonths L year termName (map (\<lambda>targetM. (year, targetM)) [1..12]) of
                Found term \<Rightarrow> Inr (Date_of_Solar term)
              | Raises \<Rightarrow> Inl (LocateError year termName)
              | Undefined \<Rightarrow> Inl (LocateError year termName)))"

fun getExactJieqi :: "variant \<Rightarrow> authority \<Rightarrow> int \<Rightarrow> string \<Rightarrow> error + Date" where
  "getExactJieqi Simple L year termName = getExactJieqi_Simple L year termName"
| "getExactJieqi HighPrecision L year termName = getExactJieqi_HighPrecision L year termName"

section \<open>The assignment engine: class \<^verbatim>\<open>WuYunLiuQi\<close>\<close>

record WuYunLiuQi =
  targetDate :: Date
  wuyunYear :: int
  stem :: "HeavenlyStem option"
  branch :: "EarthlyBranch option"

text \<open>
  The constructor. A stem or branch that \<^verbatim>\<open>fromYear\<close> misses is stored as
  \<^verbatim>\<open>undefined\<close>; the \<^verbatim>\<open>TypeError\<close> comes later, where a field of it is read.
\<close>

definition WuYunLiuQi_new :: "variant \<Rightarrow> authority \<Rightarrow> Date \<Rightarrow> error + WuYunLiuQi" where
  "WuYunLiuQi_new v L dateObj =
     (case getExactJieqi v L (getFullYear dateObj) ''dahan'' of
        Inl e \<Rightarrow> Inl e
      | Inr currentYearDahan \<Rightarrow>
          (let wy = (if Date_less dateObj currentYearDahan
                     then getFullYear dateObj - 1 else getFullYear dateObj)
           in Inr \<lparr>targetDate = dateObj, wuyunYear = wy,
                   stem = HeavenlyStem_fromYear v wy,
                   branch = EarthlyBranch_fromYear v wy\<rparr>))"

record Fortune =
  step :: int
  element :: Element
  adequacy :: Adequacy

text \<open>The loop of \<^verbatim>\<open>getGuestFortunes\<close>: \<open>n\<close> rounds are left, \<open>i\<close> is the loop variable.\<close>

fun guestFortunes_loop :: "nat \<Rightarrow> int \<Rightarrow> Element \<Rightarrow> Adequacy \<Rightarrow> Fortune list" where
  "guestFortunes_loop 0 i currentElement currentAdequacy = []"
| "guestFortunes_loop (Suc n) i currentElement currentAdequacy =
     \<lparr>step = i + 1, element = currentElement, adequacy = currentAdequacy\<rparr>
     # guestFortunes_loop n (i + 1) (ElementGeneration currentElement)
         (if currentAdequacy = EXCESS then DEFICIENCY else EXCESS)"

definition getGuestFortunes :: "WuYunLiuQi \<Rightarrow> error + Fortune list" where
  "getGuestFortunes w =
     (case stem w of
        None \<Rightarrow> Inl TypeError
      | Some st \<Rightarrow> Inr (guestFortunes_loop 5 0 (stem_element st) (stem_adequacy st)))"

definition getHostFortunes :: "Element list" where
  "getHostFortunes = [WOOD, FIRE, EARTH, METAL, WATER]"

record ClimaticEffect =
  celestial :: QiType
  terrestrial :: QiType

definition mapping :: "(glyph list \<times> QiType list) list" where
  "mapping =
     [([branch_char ZI, branch_char WU_branch], [MILD_YIN_FIRE, MILD_YANG_METAL]),
      ([branch_char CHOU, branch_char WEI], [DOMINANT_YIN_EARTH, DOMINANT_YANG_WATER]),
      ([branch_char YIN, branch_char SHEN], [WEAK_YANG_FIRE, WEAK_YIN_WOOD]),
      ([branch_char MAO, branch_char YOU], [MILD_YANG_METAL, MILD_YIN_FIRE]),
      ([branch_char CHEN, branch_char XU], [DOMINANT_YANG_WATER, DOMINANT_YIN_EARTH]),
      ([branch_char SI, branch_char HAI], [WEAK_YIN_WOOD, WEAK_YANG_FIRE])]"

text \<open>
  \<^verbatim>\<open>getClimaticEffect\<close> returns the pair of the first item whose branches include the
  branch's glyph, and \<^verbatim>\<open>undefined\<close> (here \<open>Inr None\<close>) when the loop ends without one.
\<close>

fun climatic_loop :: "glyph \<Rightarrow> (glyph list \<times> QiType list) list \<Rightarrow> ClimaticEffect option" where
  "climatic_loop c [] = None"
| "climatic_loop c (item # items) =
     (if c \<in> set (fst item)
      then Some \<lparr>celestial = snd item ! 0, terrestrial = snd item ! 1\<rparr>
      else climatic_loop c items)"

definition getClimaticEffect :: "WuYunLiuQi \<Rightarrow> error + ClimaticEffect option" where
  "getClimaticEffect w =
     (case branch w of
        None \<Rightarrow> Inl TypeError
      | Some b \<Rightarrow> Inr (climatic_loop (branch_char b) mapping))"

text \<open>
  \<^verbatim>\<open>getGuestQiSequence\<close>; \<^verbatim>\<open>this.getClimaticEffect()!\<close> only silences the type checker,
  so reading \<^verbatim>\<open>.celestial\<close> of \<^verbatim>\<open>undefined\<close> is a \<^verbatim>\<open>TypeError\<close>.
\<close>

definition getGuestQiSequence :: "WuYunLiuQi \<Rightarrow> error + QiType list" where
  "getGuestQiSequence w =
     (case getClimaticEffect w of
        Inl e \<Rightarrow> Inl e
      | Inr None \<Rightarrow> Inl TypeError
      | Inr (Some effect) \<Rightarrow>
          (let st = celestial effect; zq = terrestrial effect
           in Inr [QiType_previous (QiType_previous st), QiType_previous st, st,
                   QiType_previous (QiType_previous zq), QiType_previous zq, zq]))"


text \<open>
  \<^verbatim>\<open>d.setDate(d.getDate() + offset)\<close>: a day past the end of the month runs into the
  following months. Only the overflow is modelled; the offsets of the engine are never
  negative.
\<close>

definition days_in_month :: "int \<Rightarrow> int \<Rightarrow> int" where
  "days_in_month y m =
     (if m = 1 then (if (y mod 4 = 0 \<and> y mod 100 \<noteq> 0) \<or> y mod 400 = 0 then 29 else 28)
      else if m = 3 \<or> m = 5 \<or> m = 8 \<or> m = 10 then 30 else 31)"

function setDate :: "Date \<Rightarrow> int \<Rightarrow> Date" where
  "setDate d n =
     (if n > days_in_month (getFullYear d) (getMonth_Date d)
      then setDate
             (if getMonth_Date d \<ge> 11
              then d\<lparr>getFullYear := getFullYear d + 1, getMonth_Date := 0\<rparr>
              else d\<lparr>getMonth_Date := getMonth_Date d + 1\<rparr>)
             (n - days_in_month (getFullYear d) (getMonth_Date d))
      else d\<lparr>getDate := n\<rparr>)"
  by pat_completeness auto
termination
  by (relation "measure (\<lambda>(d, n). nat n)") (auto simp: days_in_month_def split: if_splits)

declare setDate.simps [simp del]

text \<open>
  \<^verbatim>\<open>termOffsets.map(([term, offset]) => { const d = getExactJieqi(wuyunYear, term);
  d.setDate(d.getDate() + offset); return d; })\<close>, and
  \<^verbatim>\<open>terms.map((t, i) => getExactJieqi(wuyunYear + (i === 6 ? 1 : 0), t))\<close>: the entries
  are year, term and the offset, if the date is moved; the first exception leaves the
  map.
\<close>

fun locate_all ::
  "variant \<Rightarrow> authority \<Rightarrow> (int \<times> string \<times> int option) list \<Rightarrow> error + Date list" where
  "locate_all v L [] = Inr []"
| "locate_all v L ((year, term, offset) # rest) =
     (case getExactJieqi v L year term of
        Inl e \<Rightarrow> Inl e
      | Inr d \<Rightarrow>
          (case locate_all v L rest of
             Inl e \<Rightarrow> Inl e
           | Inr ds \<Rightarrow>
               Inr ((case offset of
                       None \<Rightarrow> d
                     | Some k \<Rightarrow> setDate d (getDate d + k)) # ds)))"

text \<open>
  \<^verbatim>\<open>let step = dflt; for (i ...) if (targetDate >= b[i] && targetDate < b[i + 1])
  { step = i; break; }\<close>
\<close>

fun step_loop :: "Date \<Rightarrow> Date list \<Rightarrow> nat \<Rightarrow> nat \<Rightarrow> nat" where
  "step_loop t (a # b # rest) i dflt =
     (if Date_ge t a \<and> Date_less t b then i else step_loop t (b # rest) (i + 1) dflt)"
| "step_loop t bounds i dflt = dflt"

definition termOffsets :: "(string \<times> int) list" where
  "termOffsets =
     [(''dahan'', 0), (''chunfen'', 13), (''mangzhong'', 10), (''chushu'', 7), (''lidong'', 4)]"

definition getCurrentFortuneEnums :: "variant \<Rightarrow> authority \<Rightarrow> WuYunLiuQi \<Rightarrow> error + Element \<times> Element" where
  "getCurrentFortuneEnums v L w =
     (case locate_all v L
             (map (\<lambda>(term, offset). (wuyunYear w, term, Some offset)) termOffsets
              @ [(wuyunYear w + 1, ''dahan'', None)]) of
        Inl e \<Rightarrow> Inl e
      | Inr startDates \<Rightarrow>
          (let step = step_loop (targetDate w) startDates 0 4
           in case getGuestFortunes w of
                Inl e \<Rightarrow> Inl e
              | Inr guests \<Rightarrow> Inr (getHostFortunes ! step, element (guests ! step))))"

definition qiTerms :: "string list" where
  "qiTerms = [''dahan'', ''chunfen'', ''xiaoman'', ''dashu'', ''qiufen'', ''xiaoxue'']"

definition getCurrentQiEnums :: "variant \<Rightarrow> authority \<Rightarrow> WuYunLiuQi \<Rightarrow> error + QiType \<times> QiType" where
  "getCurrentQiEnums v L w =
     (case locate_all v L
             (map (\<lambda>t. (wuyunYear w, t, None)) qiTerms
              @ [(wuyunYear w + 1, ''dahan'', None)]) of
        Inl e \<Rightarrow> Inl e
      | Inr bounds \<Rightarrow>
          (let step = step_loop (targetDate w) bounds 0 5
           in case getGuestQiSequence w of
                Inl e \<Rightarrow> Inl e
              | Inr guests \<Rightarrow> Inr (QiType_list ! step, guests ! step)))"

section \<open>The index engine: class \<^verbatim>\<open>AHIEngine\<close>\<close>

record AHIEngine =
  birthDt :: Date
  natalCalc :: WuYunLiuQi
  natalSuiYun :: Element
  natalAdequacy :: Adequacy
  strongZang :: Element
  weakZang :: Element
  birthHostYun :: Element
  birthHostQi :: QiType
  birthGuestQi :: QiType
  baseScore :: int

text \<open>
  \<^verbatim>\<open>_calcBaseScore\<close> of \<^verbatim>\<open>server.ts\<close> and \<^verbatim>\<open>part_002\<close>; it reads the two birth qi.
  \<^verbatim>\<open>part_003\<close> has the same text with the constants 20, 20, 10 and 15.
\<close>

definition calcBaseScore :: "QiType \<Rightarrow> QiType \<Rightarrow> int" where
  "calcBaseScore hostQi guestQi =
     (let score = 50;
          hEl = qi_element hostQi;
          gEl = qi_element guestQi;
          score =
            (if ElementGeneration gEl = hEl \<or> ElementGeneration hEl = gEl \<or> gEl = hEl
             then score + 10
             else if ElementOvercomes hEl = gEl then score - 15
             else if ElementOvercomes gEl = hEl then score - 10
             else score);
          score =
            (if display_name guestQi = display_name MILD_YIN_FIRE
                \<and> display_name hostQi = display_name WEAK_YANG_FIRE
             then score + 8
             else if display_name guestQi = display_name WEAK_YANG_FIRE
                \<and> display_name hostQi = display_name MILD_YIN_FIRE
             then score - 8
             else score)
      in score)"

definition calcBaseScore_part_003 :: "QiType \<Rightarrow> QiType \<Rightarrow> int" where
  "calcBaseScore_part_003 hostQi guestQi =
     (let score = 50;
          hEl = qi_element hostQi;
          gEl = qi_element guestQi;
          score =
            (if ElementGeneration gEl = hEl \<or> ElementGeneration hEl = gEl \<or> gEl = hEl
             then score + 20
             else if ElementOvercomes hEl = gEl then score - 20
             else if ElementOvercomes gEl = hEl then score - 10
             else score);
          score =
            (if display_name guestQi = display_name MILD_YIN_FIRE
                \<and> display_name hostQi = display_name WEAK_YANG_FIRE
             then score + 15
             else if display_name guestQi = display_name WEAK_YANG_FIRE
                \<and> display_name hostQi = display_name MILD_YIN_FIRE
             then score - 15
             else score)
      in score)"

definition AHIEngine_new :: "variant \<Rightarrow> authority \<Rightarrow> Date \<Rightarrow> error + AHIEngine" where
  "AHIEngine_new v L dt =
     (case WuYunLiuQi_new v L dt of
        Inl e \<Rightarrow> Inl e
      | Inr calc \<Rightarrow>
          (case stem calc of
             None \<Rightarrow> Inl TypeError
           | Some st \<Rightarrow>
               (let suiYun = stem_element st;
                    adq = stem_adequacy st;
                    strong = (if adq = EXCESS then suiYun else ElementOvercomer suiYun);
                    weak = (if adq = EXCESS then ElementOvercomes suiYun else suiYun)
                in case getCurrentFortuneEnums v L calc of
                     Inl e \<Rightarrow> Inl e
                   | Inr (hostYun, guestYun) \<Rightarrow>
                       (case getCurrentQiEnums v L calc of
                          Inl e \<Rightarrow> Inl e
                        | Inr (hostQi, guestQi) \<Rightarrow>
                            Inr \<lparr>birthDt = dt, natalCalc = calc, natalSuiYun = suiYun,
                                 natalAdequacy = adq, strongZang = strong, weakZang = weak,
                                 birthHostYun = hostYun, birthHostQi = hostQi,
                                 birthGuestQi = guestQi,
                                 baseScore = calcBaseScore hostQi guestQi\<rparr>))))"


subsection \<open>\<^verbatim>\<open>calculateYearAhi\<close>\<close>

text \<open>The blocks of the method, each named after the local variable it computes.\<close>

definition suiYunPts :: "AHIEngine \<Rightarrow> Element \<Rightarrow> Adequacy \<Rightarrow> int" where
  "suiYunPts e cySuiYun cyAdequacy =
     (let pts = 0;
          pts =
            (if cySuiYun = natalSuiYun e then pts + 25
             else if ElementGeneration cySuiYun = natalSuiYun e
                     \<or> ElementGeneration (natalSuiYun e) = cySuiYun then pts + 18
             else if ElementOvercomes cySuiYun = natalSuiYun e
                     \<or> ElementOvercomes (natalSuiYun e) = cySuiYun then pts - 22
             else pts);
          pts = (if cyAdequacy = EXCESS \<and> ElementOvercomes cySuiYun = weakZang e
                 then pts - 15 else pts);
          pts = (if cyAdequacy = DEFICIENCY \<and> ElementGeneration cySuiYun = strongZang e
                 then pts + 10 else pts)
      in pts)"

definition stepPts :: "AHIEngine \<Rightarrow> Element \<Rightarrow> int" where
  "stepPts e gy =
     (if gy = birthHostYun e then 20
      else if ElementGeneration gy = birthHostYun e \<or> ElementGeneration gy = weakZang e
      then 15
      else if ElementOvercomes gy = birthHostYun e \<or> ElementOvercomes gy = weakZang e
      then - 25
      else 0)"

fun stepPtsSum :: "AHIEngine \<Rightarrow> Element list \<Rightarrow> int \<Rightarrow> int" where
  "stepPtsSum e [] acc = acc"
| "stepPtsSum e (gy # gys) acc = stepPtsSum e gys (acc + stepPts e gy)"

definition sqPts1 :: "AHIEngine \<Rightarrow> QiType \<Rightarrow> QiType \<Rightarrow> int" where
  "sqPts1 e siTian zaiQuan =
     (let bhPrefix = take 2 (display_name (birthHostQi e));
          stPrefix = take 2 (display_name siTian);
          zqPrefix = take 2 (display_name zaiQuan);
          pts = 0;
          pts = (if stPrefix = bhPrefix \<or> zqPrefix = bhPrefix then pts + 22 else pts);
          pts = (if ElementGeneration (qi_element siTian) = qi_element (birthHostQi e)
                 then pts + 16 else pts);
          pts = (if ElementOvercomes (qi_element siTian) = qi_element (birthHostQi e)
                    \<or> ElementOvercomes (qi_element siTian) = weakZang e
                 then pts - 28 else pts);
          pts = (if ElementOvercomes (qi_element zaiQuan) = qi_element (birthHostQi e)
                    \<or> ElementOvercomes (qi_element zaiQuan) = weakZang e
                 then pts - 28 else pts)
      in pts)"

definition sqPts2 :: "Element \<Rightarrow> Element \<Rightarrow> Element \<Rightarrow> int" where
  "sqPts2 natalYun cyBranchEl siTianEl =
     (if ElementGeneration siTianEl = natalYun then 22
      else if natalYun = cyBranchEl then 20
      else if ElementGeneration natalYun = siTianEl then - 15
      else if ElementOvercomes natalYun = siTianEl then - 20
      else if ElementOvercomes siTianEl = natalYun then - 28
      else if natalYun = siTianEl then - 12
      else 0)"

text \<open>
  The first two statements of the method, which build the profile of the flowing year:
  \<^verbatim>\<open>const dt = AstronomyEngine.getExactJieqi(targetYear, "dahan");
  const flowYear = new WuYunLiuQi(dt);\<close>
\<close>

definition flowYear_of :: "variant \<Rightarrow> authority \<Rightarrow> int \<Rightarrow> error + WuYunLiuQi" where
  "flowYear_of v L targetYear =
     (case getExactJieqi v L targetYear ''dahan'' of
        Inl err \<Rightarrow> Inl err
      | Inr dt \<Rightarrow> WuYunLiuQi_new v L dt)"

definition calculateYearAhi :: "variant \<Rightarrow> authority \<Rightarrow> AHIEngine \<Rightarrow> int \<Rightarrow> error + rat" where
  "calculateYearAhi v L e targetYear =
     (case flowYear_of v L targetYear of
        Inl err \<Rightarrow> Inl err
      | Inr flowYear \<Rightarrow>
     (case stem flowYear of
        None \<Rightarrow> Inl TypeError
      | Some st \<Rightarrow>
     (case getClimaticEffect flowYear of
        Inl err \<Rightarrow> Inl err
      | Inr None \<Rightarrow> Inl TypeError
      | Inr (Some effect) \<Rightarrow>
     (case getGuestFortunes flowYear of
        Inl err \<Rightarrow> Inl err
      | Inr fortunes \<Rightarrow>
     (case branch flowYear of
        None \<Rightarrow> Inl TypeError
      | Some br \<Rightarrow>
          (let cySuiYun = stem_element st;
               cyAdequacy = stem_adequacy st;
               siTian = celestial effect;
               zaiQuan = terrestrial effect;
               guestYuns = map element fortunes;
               avgStepPts = rat_of_int (stepPtsSum e guestYuns 0) / 5;
               weightedYun =
                 rat_of_int (suiYunPts e cySuiYun cyAdequacy) * (90 / 100)
                 + avgStepPts * (10 / 100);
               weightedQi =
                 rat_of_int (sqPts1 e siTian zaiQuan) * (25 / 100)
                 + rat_of_int (sqPts2 (natalSuiYun e) (branch_element br) (qi_element siTian))
                   * (75 / 100);
               totalRawCollision = weightedYun * (30 / 100) + weightedQi * (70 / 100)
           in Inr totalRawCollision))))))"

section \<open>The route \<^verbatim>\<open>/api/calculate\<close>\<close>

record KlinePoint =
  age :: int
  open_kp :: rat
  close_kp :: rat

record Response =
  kline_data :: "KlinePoint list"
  base_score :: int

text \<open>
  \<^verbatim>\<open>parseFloat(x.toFixed(2))\<close>: \<^verbatim>\<open>toFixed\<close> takes the sign off, then the integer \<open>n\<close>
  with \<open>n / 100\<close> nearest to the number, the larger one of two.
\<close>

definition toFixed2 :: "rat \<Rightarrow> rat" where
  "toFixed2 x =
     (if x < 0 then - (rat_of_int \<lfloor>- x * 100 + 1 / 2\<rfloor> / 100)
      else rat_of_int \<lfloor>x * 100 + 1 / 2\<rfloor> / 100)"

definition lifecycleDrift :: "int \<Rightarrow> rat" where
  "lifecycleDrift a =
     (if a \<ge> 1 \<and> a \<le> 20 then 8 / 10
      else if a \<ge> 21 \<and> a \<le> 40 then 0
      else if a \<ge> 41 \<and> a \<le> 50 then - (8 / 10)
      else - (15 / 10))"

text \<open>
  \<^verbatim>\<open>for (let age = 1; age <= 60; age++)\<close>, entered at \<open>age\<close> with \<open>currentHealth\<close>; the
  points pushed from there on, in order.
\<close>

function kline_loop ::
  "variant \<Rightarrow> authority \<Rightarrow> AHIEngine \<Rightarrow> int \<Rightarrow> int \<Rightarrow> rat \<Rightarrow> error + KlinePoint list" where
  "kline_loop v L engine year a currentHealth =
     (if a \<le> 60 then
        (let calcYear = year + a - 1
         in case calculateYearAhi v L engine calcYear of
              Inl err \<Rightarrow> Inl err
            | Inr impact \<Rightarrow>
                (let dynamicBase =
                       currentHealth * (6 / 10) + rat_of_int (baseScore engine) * (4 / 10);
                     closeScore = dynamicBase + impact + lifecycleDrift a;
                     closeScore = max 0 (min 100 closeScore)
                 in case kline_loop v L engine year (a + 1) closeScore of
                      Inl err \<Rightarrow> Inl err
                    | Inr rest \<Rightarrow>
                        Inr (\<lparr>age = a, open_kp = toFixed2 currentHealth,
                              close_kp = toFixed2 closeScore\<rparr> # rest)))
      else Inr [])"
  by pat_completeness auto
termination
  by (relation "measure (\<lambda>(v, L, engine, year, a, currentHealth). nat (61 - a))") auto

declare kline_loop.simps [simp del]

text \<open>
  The handler, without the textual summary: the summary is put together from the calls
  the two constructors have made already, on the same date. \<^verbatim>\<open>!year\<close> holds of \<open>0\<close>.
\<close>

definition calculate :: "variant \<Rightarrow> authority \<Rightarrow> int \<Rightarrow> int \<Rightarrow> int \<Rightarrow> error + Response" where
  "calculate v L year month day =
     (if year = 0 \<or> month = 0 \<or> day = 0 then Inl BadRequest
      else
        (let birthDate = new_Date year (month - 1) day 12 0 0
         in case WuYunLiuQi_new v L birthDate of
              Inl err \<Rightarrow> Inl err
            | Inr calc \<Rightarrow>
           (case AHIEngine_new v L birthDate of
              Inl err \<Rightarrow> Inl err
            | Inr engine \<Rightarrow>
           (case kline_loop v L engine year 1 (rat_of_int (baseScore engine)) of
              Inl err \<Rightarrow> Inl err
            | Inr points \<Rightarrow>
                Inr \<lparr>kline_data = points, base_score = baseScore engine\<rparr>))))"


section \<open>The specification's words\<close>

text \<open>
  The definitions of this section follow the specification, not the source; the theorems
  compare them with the engine.
\<close>

text \<open>\<open>clamp(x, lo, hi)\<close>.\<close>

definition clamp :: "rat \<Rightarrow> rat \<Rightarrow> rat \<Rightarrow> rat" where
  "clamp x lo hi = (if x < lo then lo else if x > hi then hi else x)"

text \<open>The age-band drift: ages 1 to 20, 21 to 40, 41 to 50 and 51 to 60.\<close>

definition drift :: "int \<Rightarrow> rat" where
  "drift a =
     (if a \<in> {1..20} then 8 / 10 else if a \<in> {21..40} then 0
      else if a \<in> {41..50} then - (8 / 10) else - (15 / 10))"

text \<open>A strict priority chain: the score of the first condition that holds.\<close>

fun first_match :: "(bool \<times> int) list \<Rightarrow> int \<Rightarrow> int" where
  "first_match [] otherwise = otherwise"
| "first_match ((c, pts) # rest) otherwise = (if c then pts else first_match rest otherwise)"

definition generates :: "Element \<Rightarrow> Element \<Rightarrow> bool" where
  "generates a b = (ElementGeneration a = b)"

definition overcomes :: "Element \<Rightarrow> Element \<Rightarrow> bool" where
  "overcomes a b = (ElementOvercomes a = b)"

definition qiPart2 :: "Element \<Rightarrow> Element \<Rightarrow> Element \<Rightarrow> int" where
  "qiPart2 natalStem flowingBranch celestialEl =
     first_match
       [(generates celestialEl natalStem, 22),
        (natalStem = flowingBranch, 20),
        (generates natalStem celestialEl, - 15),
        (overcomes natalStem celestialEl, - 20),
        (overcomes celestialEl natalStem, - 28),
        (natalStem = celestialEl, - 12)]
       0"

definition mean :: "int list \<Rightarrow> rat" where
  "mean xs = rat_of_int (sum_list xs) / rat_of_int (int (length xs))"

text \<open>
  The collision score of a calendar year: what \<^verbatim>\<open>calculateYearAhi\<close> returns for it
  (and \<open>0\<close>, never used, where it throws).
\<close>

definition impact :: "variant \<Rightarrow> authority \<Rightarrow> AHIEngine \<Rightarrow> int \<Rightarrow> rat" where
  "impact v L e y = (case calculateYearAhi v L e y of Inr x \<Rightarrow> x | Inl err \<Rightarrow> 0)"

text \<open>
  The series recurrence: \<open>health \<dots> 0\<close> is the natal base score, and \<open>health \<dots> a\<close> is
  \<open>clamp(0.6 \<times> health(a - 1) + 0.4 \<times> baseScore + impact(a) + drift(a), 0, 100)\<close>, with the
  impact of the calendar year \<open>year + a - 1\<close>.
\<close>

fun health :: "variant \<Rightarrow> authority \<Rightarrow> AHIEngine \<Rightarrow> int \<Rightarrow> nat \<Rightarrow> rat" where
  "health v L e year 0 = rat_of_int (baseScore e)"
| "health v L e year (Suc n) =
     clamp (6 / 10 * health v L e year n + 4 / 10 * rat_of_int (baseScore e)
            + impact v L e (year + int (Suc n) - 1) + drift (int (Suc n)))
       0 100"

text \<open>The five guest movements of a year, from the element of its stem.\<close>

definition guestMovements :: "Element \<Rightarrow> Element list" where
  "guestMovements el =
     [el, ElementGeneration el, ElementGeneration (ElementGeneration el),
      ElementGeneration (ElementGeneration (ElementGeneration el)),
      ElementGeneration (ElementGeneration (ElementGeneration (ElementGeneration el)))]"

text \<open>
  The predecessor in the canonical cycle WeakYinWood, MildYinFire, WeakYangFire,
  DominantYinEarth, MildYangMetal, DominantYangWater, back to WeakYinWood.
\<close>

fun pred :: "QiType \<Rightarrow> QiType" where
  "pred WEAK_YIN_WOOD = DOMINANT_YANG_WATER"
| "pred MILD_YIN_FIRE = WEAK_YIN_WOOD"
| "pred WEAK_YANG_FIRE = MILD_YIN_FIRE"
| "pred DOMINANT_YIN_EARTH = WEAK_YANG_FIRE"
| "pred MILD_YANG_METAL = DOMINANT_YIN_EARTH"
| "pred DOMINANT_YANG_WATER = MILD_YANG_METAL"


text \<open>
  The months the year-checked locator probes, in order: the term's month, the month
  before, the month after, December of the year before, then the twelve months of the
  year.
\<close>

definition candidates :: "int \<Rightarrow> string \<Rightarrow> (int \<times> int) list" where
  "candidates year termName =
     map wrapMonth
       (checkMonths year (case map_of monthMap termName of Some m \<Rightarrow> m | None \<Rightarrow> 6))
     @ map (\<lambda>targetM. (year, targetM)) [1..12]"

section \<open>Two calendar authorities to run the engine on\<close>

text \<open>
  Both put every solar term on a fixed civil day, at noon. \<open>civil_almanac\<close> answers with
  the terms of the civil year of the day asked. \<open>lunar_almanac\<close> keys its table by the
  lunar year: a day before the new year (here the 5th
  of February) gets the table of the year before, so its Great Cold is last year's.
\<close>

definition term_days :: "(string \<times> int \<times> int) list" where
  "term_days =
     [(''dahan'', 1, 20), (''chunfen'', 3, 20), (''xiaoman'', 5, 21),
      (''mangzhong'', 6, 6), (''dashu'', 7, 23), (''chushu'', 8, 23),
      (''qiufen'', 9, 23), (''lidong'', 11, 7), (''xiaoxue'', 11, 22)]"

definition almanac_entry :: "int \<Rightarrow> string \<Rightarrow> lookup" where
  "almanac_entry y termName =
     (case map_of term_days termName of
        None \<Rightarrow> Undefined
      | Some (m, d) \<Rightarrow>
          Found \<lparr>getYear = y, getMonth = m, getDay = d,
                 getHour = 12, getMinute = 0, getSecond = 0\<rparr>)"

definition civil_almanac :: authority where
  "civil_almanac y m d termName = almanac_entry y termName"

definition lunar_almanac :: authority where
  "lunar_almanac y m d termName =
     almanac_entry (if m < 2 \<or> (m = 2 \<and> d < 5) then y - 1 else y) termName"

text \<open>
  The engine the constructor builds for a birth on 15 June 1990 from \<open>civil_almanac\<close>
  (lemma \<open>AHIEngine_new_1990\<close>).
\<close>

definition engine_1990 :: AHIEngine where
  "engine_1990 =
     \<lparr>birthDt = new_Date 1990 5 15 12 0 0,
      natalCalc = \<lparr>targetDate = new_Date 1990 5 15 12 0 0, wuyunYear = 1990,
                   stem = Some GENG, branch = Some WU_branch\<rparr>,
      natalSuiYun = METAL, natalAdequacy = EXCESS, strongZang = METAL, weakZang = WOOD,
      birthHostYun = FIRE, birthHostQi = WEAK_YANG_FIRE, birthGuestQi = MILD_YIN_FIRE,
      baseScore = 68\<rparr>"


section \<open>Facts about the tables\<close>

lemma smod_nonneg:
  fixes a n :: int
  assumes "0 < n"
  shows "(a smod n + n) smod n = a mod n"
proof (cases "a \<ge> 0")
  case True
  then have s: "a smod n = a mod n" using assms by (simp add: signed_modulo_int_def sgn_if)
  have "0 \<le> a mod n" using assms by simp
  then have p: "0 < a mod n + n" using assms by linarith
  have "(a mod n + n) smod n = (a mod n + n) mod n"
    using p assms by (simp add: signed_modulo_int_def sgn_if)
  then show ?thesis using s by simp
next
  case False
  define r where "r = (- a) mod n"
  have r: "0 \<le> r" "r < n" using assms by (simp_all add: r_def)
  have s: "a smod n = - r" using False assms by (simp add: signed_modulo_int_def sgn_if r_def)
  have m: "a mod n = (if r = 0 then 0 else n - r)"
    using zmod_zminus1_eq_if [of "- a" n] by (simp add: r_def)
  have p: "0 < - r + n" using r by linarith
  have q: "(- r + n) smod n = (- r + n) mod n"
    using p assms by (simp add: signed_modulo_int_def sgn_if)
  have "(- r + n) mod n = (if r = 0 then 0 else n - r)"
  proof (cases "r = 0")
    case True
    then show ?thesis by simp
  next
    case False
    then have "0 \<le> - r + n" "- r + n < n" using r by linarith+
    then have "(- r + n) mod n = - r + n" by (rule mod_pos_pos_trivial)
    then show ?thesis using False by simp
  qed
  then show ?thesis using s m q by simp
qed

text \<open>
  With the non-negative remainder of \<^verbatim>\<open>part_002\<close>, every integer year has a stem and a
  branch: the entries at the mathematical remainders of \<open>year - 4\<close>.
\<close>

lemma HeavenlyStem_fromYear_HighPrecision:
  "HeavenlyStem_fromYear HighPrecision year
     = Some (HeavenlyStem_list ! nat ((year - 4) mod 10))"
  by (simp add: smod_nonneg js_index_def HeavenlyStem_list_def)

lemma EarthlyBranch_fromYear_HighPrecision:
  "EarthlyBranch_fromYear HighPrecision year
     = Some (EarthlyBranch_list ! nat ((year - 4) mod 12))"
  by (simp add: smod_nonneg js_index_def EarthlyBranch_list_def)

text \<open>From year 4 on the bare remainder of \<^verbatim>\<open>server.ts\<close> finds the same entries.\<close>

lemma fromYear_Simple_from_year_4:
  assumes "4 \<le> year"
  shows "HeavenlyStem_fromYear Simple year = HeavenlyStem_fromYear HighPrecision year"
    and "EarthlyBranch_fromYear Simple year = EarthlyBranch_fromYear HighPrecision year"
proof -
  have h: "(year - 4) smod 10 = (year - 4) mod 10" "(year - 4) smod 12 = (year - 4) mod 12"
    using assms by (simp_all add: signed_modulo_int_def sgn_if)
  have "HeavenlyStem_fromYear Simple year = js_index HeavenlyStem_list ((year - 4) mod 10)"
    using h by simp
  also have "\<dots> = Some (HeavenlyStem_list ! nat ((year - 4) mod 10))"
    by (simp add: js_index_def HeavenlyStem_list_def)
  finally show "HeavenlyStem_fromYear Simple year = HeavenlyStem_fromYear HighPrecision year"
    by (simp only: HeavenlyStem_fromYear_HighPrecision)
  have "EarthlyBranch_fromYear Simple year = js_index EarthlyBranch_list ((year - 4) mod 12)"
    using h by simp
  also have "\<dots> = Some (EarthlyBranch_list ! nat ((year - 4) mod 12))"
    by (simp add: js_index_def EarthlyBranch_list_def)
  finally show "EarthlyBranch_fromYear Simple year = EarthlyBranch_fromYear HighPrecision year"
    by (simp only: EarthlyBranch_fromYear_HighPrecision)
qed

text \<open>
  C4 (the code of \<^verbatim>\<open>server.ts\<close> at a failing input). The claim asks for a stem and a
  branch for every integer year, years below 4 included. In year 3 the index
  \<^verbatim>\<open>(3 - 4) % 10\<close> is \<open>-1\<close>: \<^verbatim>\<open>fromYear\<close> of \<^verbatim>\<open>server.ts\<close> returns \<^verbatim>\<open>undefined\<close> for
  stem and branch, where \<^verbatim>\<open>fromYear\<close> of \<^verbatim>\<open>part_002\<close> returns the tenth stem and the
  twelfth branch.
\<close>

theorem fromYear_Simple_year_3:
  "HeavenlyStem_fromYear Simple 3 = None \<and> EarthlyBranch_fromYear Simple 3 = None
   \<and> HeavenlyStem_fromYear HighPrecision 3 = Some GUI
   \<and> EarthlyBranch_fromYear HighPrecision 3 = Some HAI"
  by (simp add: js_index_def signed_modulo_int_def HeavenlyStem_list_def
        EarthlyBranch_list_def)

text \<open>
  C9. For every element, what it overcomes is what its successor in the generation cycle
  generates (two steps along the cycle), and \<open>ElementOvercomer\<close> undoes
  \<open>ElementOvercomes\<close>, on either side.
\<close>

theorem element_tables_consistent:
  "ElementOvercomes x = ElementGeneration (ElementGeneration x)
   \<and> ElementOvercomer (ElementOvercomes x) = x
   \<and> ElementOvercomes (ElementOvercomer x) = x"
  by (cases x) simp_all

lemma QiType_previous_pred: "QiType_previous q = pred q"
  by (cases q)
     (simp_all add: QiType_previous_def findIndex_def QiType_list_def signed_modulo_int_def)

lemma previous_index_in_range:
  fixes idx :: int
  assumes "- 1 \<le> idx" "idx \<le> 5"
  shows "0 \<le> (idx - 1 + 6) smod 6 \<and> (idx - 1 + 6) smod 6 < 6"
  using assms by (simp add: signed_modulo_int_def sgn_if)

lemma climatic_loop_total:
  "\<exists>c t. climatic_loop (branch_char b) mapping = Some \<lparr>celestial = c, terrestrial = t\<rparr>"
  by (cases b) (simp_all add: mapping_def)


section \<open>The natal base score\<close>


text \<open>
  The older constants of \<^verbatim>\<open>part_003\<close>, which the specification lists as an open
  question, give scores between 30 and 85.
\<close>

lemma calcBaseScore_part_003_range:
  "30 \<le> calcBaseScore_part_003 host guest \<and> calcBaseScore_part_003 host guest \<le> 85
   \<and> calcBaseScore_part_003 WEAK_YANG_FIRE MILD_YIN_FIRE = 85"
  by (cases host; cases guest) (simp_all add: calcBaseScore_part_003_def)

text \<open>The constructor stores the score of \<open>calcBaseScore\<close>.\<close>

lemma AHIEngine_new_baseScore:
  assumes "AHIEngine_new v L dt = Inr e"
  shows "baseScore e = calcBaseScore (birthHostQi e) (birthGuestQi e)"
  using assms
  by (auto simp: AHIEngine_new_def Let_def split: sum.splits option.splits prod.splits)

section \<open>The guest qi of a movement-year\<close>

text \<open>
  C7. A profile whose branch is one of the twelve has a climatic effect, and its six
  guest slots are the two predecessors of the celestial qi, the celestial qi, the two
  predecessors of the terrestrial qi and the terrestrial qi; \<^verbatim>\<open>QiType.previous\<close>, which
  searches the list by display name, is the predecessor \<open>pred\<close> of the canonical cycle.
\<close>

theorem guest_qi_sequence:
  assumes "branch w = Some b"
  shows "\<exists>c t. getClimaticEffect w = Inr (Some \<lparr>celestial = c, terrestrial = t\<rparr>)
           \<and> getGuestQiSequence w
               = Inr [pred (pred c), pred c, c, pred (pred t), pred t, t]"
proof -
  obtain c t
    where ct: "climatic_loop (branch_char b) mapping = Some \<lparr>celestial = c, terrestrial = t\<rparr>"
    using climatic_loop_total by blast
  have "getClimaticEffect w = Inr (Some \<lparr>celestial = c, terrestrial = t\<rparr>)"
    using assms ct by (simp add: getClimaticEffect_def)
  then show ?thesis
    by (simp add: getGuestQiSequence_def QiType_previous_pred)
qed

text \<open>The movement-year 1990, whose branch is \<open>WU_branch\<close>.\<close>

theorem guest_qi_sequence_witness:
  "branch \<lparr>targetDate = new_Date 1990 5 15 12 0 0, wuyunYear = 1990,
           stem = Some GENG, branch = Some WU_branch\<rparr> = Some WU_branch
   \<and> getGuestQiSequence \<lparr>targetDate = new_Date 1990 5 15 12 0 0, wuyunYear = 1990,
           stem = Some GENG, branch = Some WU_branch\<rparr>
     = Inr [DOMINANT_YANG_WATER, WEAK_YIN_WOOD, MILD_YIN_FIRE,
            WEAK_YANG_FIRE, DOMINANT_YIN_EARTH, MILD_YANG_METAL]"
  using guest_qi_sequence [of "\<lparr>targetDate = new_Date 1990 5 15 12 0 0, wuyunYear = 1990,
           stem = Some GENG, branch = Some WU_branch\<rparr>" WU_branch]
  by (simp add: getClimaticEffect_def mapping_def)


section \<open>Dates\<close>

lemma new_Date_year:
  "getFullYear (new_Date y m d h mi s) = (if 0 \<le> y \<and> y \<le> 99 then 1900 + y else y)"
  by (simp add: new_Date_def)

lemma Date_less_irrefl: "\<not> Date_less d d"
  by (simp add: Date_less_def Date_fields_def)

lemma Date_less_year: "getFullYear a < getFullYear b \<Longrightarrow> Date_less a b"
  by (simp add: Date_less_def Date_fields_def)

lemma Date_less_year_le: "Date_less a b \<Longrightarrow> getFullYear a \<le> getFullYear b"
  by (auto simp: Date_less_def Date_fields_def)

section \<open>The year-checked locator\<close>

lemma probeMonths_Found:
  assumes "probeMonths L year termName ps = Found term"
  shows "getYear term = year"
  using assms
proof (induction ps)
  case Nil
  then show ?case by simp
next
  case (Cons p ps)
  obtain y mon where p: "p = (y, mon)" by (cases p)
  show ?case
  proof (cases "L y mon 15 termName")
    case Raises
    then show ?thesis using Cons.prems p by simp
  next
    case Undefined
    then show ?thesis using Cons p by auto
  next
    case (Found t)
    then show ?thesis using Cons p by (auto split: if_splits)
  qed
qed

lemma probeMonths_append:
  "probeMonths L year termName (xs @ ys)
     = (case probeMonths L year termName xs of
          Undefined \<Rightarrow> probeMonths L year termName ys
        | Raises \<Rightarrow> Raises
        | Found term \<Rightarrow> Found term)"
  by (induction xs) (auto split: lookup.splits if_splits)

text \<open>
  The locator takes the first candidate month whose entry reports the requested year,
  and throws the error that names year and term when an entry raises or none matches.
\<close>

lemma getExactJieqi_HighPrecision_first_match:
  "getExactJieqi_HighPrecision L year termName
     = (case probeMonths L year termName (candidates year termName) of
          Found term \<Rightarrow> Inr (Date_of_Solar term)
        | Raises \<Rightarrow> Inl (LocateError year termName)
        | Undefined \<Rightarrow> Inl (LocateError year termName))"
  unfolding getExactJieqi_HighPrecision_def candidates_def probeMonths_append Let_def
  by (simp split: lookup.splits)

lemma getExactJieqi_HighPrecision_outcome:
  "(\<exists>term. getExactJieqi_HighPrecision L year termName = Inr (Date_of_Solar term)
       \<and> getYear term = year)
   \<or> getExactJieqi_HighPrecision L year termName = Inl (LocateError year termName)"
  unfolding getExactJieqi_HighPrecision_first_match
  by (auto split: lookup.splits dest: probeMonths_Found)

text \<open>
  The date returned is built from an entry of the requested year, by \<^verbatim>\<open>new Date\<close>: it
  lies in the requested year unless that year is one of \<open>0, \<dots>, 99\<close>.
\<close>

lemma getExactJieqi_HighPrecision_year:
  assumes "getExactJieqi_HighPrecision L year termName = Inr d"
  shows "getFullYear d = (if 0 \<le> year \<and> year \<le> 99 then 1900 + year else year)"
  using assms getExactJieqi_HighPrecision_outcome [of L year termName]
  by (auto simp: Date_of_Solar_def new_Date_year)

text \<open>
  C8 (the code of \<^verbatim>\<open>part_002\<close> at a failing input). The claim: the locator returns a
  timestamp of the requested civil year or throws, and never a timestamp of another year.
  Asked for the Great Cold of the year 50, with an authority whose entry for the 15th of
  January 50 reports the year 50, the year check passes and \<^verbatim>\<open>new Date(50, 0, 20, 12, 0, 0)\<close>
  is returned: a timestamp of the year 1950, and no error.
\<close>

theorem locator_two_digit_year:
  "map_sum id getFullYear (getExactJieqi HighPrecision civil_almanac 50 ''dahan'') = Inr 1950"
  by (simp add: getExactJieqi_HighPrecision_def monthMap_def checkMonths_def wrapMonth_def
        civil_almanac_def almanac_entry_def term_days_def Date_of_Solar_def new_Date_def)

lemma civil_almanac_dahan:
  "getExactJieqi_HighPrecision civil_almanac y ''dahan'' = Inr (new_Date y 0 20 12 0 0)"
  by (simp add: getExactJieqi_HighPrecision_def monthMap_def checkMonths_def wrapMonth_def
        civil_almanac_def almanac_entry_def term_days_def Date_of_Solar_def)

section \<open>The movement-year rule\<close>

lemma WuYunLiuQi_new_Inr:
  "WuYunLiuQi_new v L d = Inr w \<longleftrightarrow>
     (\<exists>g. getExactJieqi v L (getFullYear d) ''dahan'' = Inr g
        \<and> w = \<lparr>targetDate = d,
                wuyunYear = (if Date_less d g then getFullYear d - 1 else getFullYear d),
                stem = HeavenlyStem_fromYear v
                         (if Date_less d g then getFullYear d - 1 else getFullYear d),
                branch = EarthlyBranch_fromYear v
                         (if Date_less d g then getFullYear d - 1 else getFullYear d)\<rparr>)"
  by (auto simp: WuYunLiuQi_new_def Let_def split: sum.splits)

lemma movement_year_iff:
  assumes gY: "getExactJieqi v L Y ''dahan'' = Inr gY" "getFullYear gY = Y"
    and gY1: "getExactJieqi v L (Y + 1) ''dahan'' = Inr gY1" "getFullYear gY1 = Y + 1"
  shows "(\<exists>w. WuYunLiuQi_new v L d = Inr w \<and> wuyunYear w = Y)
         \<longleftrightarrow> (Date_ge d gY \<and> Date_less d gY1)"
proof
  assume "\<exists>w. WuYunLiuQi_new v L d = Inr w \<and> wuyunYear w = Y"
  then obtain g where g: "getExactJieqi v L (getFullYear d) ''dahan'' = Inr g"
    and Y: "Y = (if Date_less d g then getFullYear d - 1 else getFullYear d)"
    by (auto simp: WuYunLiuQi_new_Inr)
  show "Date_ge d gY \<and> Date_less d gY1"
  proof (cases "Date_less d g")
    case True
    then have "getFullYear d = Y + 1" using Y by simp
    then have "g = gY1" "getFullYear gY < getFullYear d" using g gY gY1 by simp_all
    then show ?thesis
      using True Date_less_year_le [of d gY] by (auto simp: Date_ge_def)
  next
    case False
    then have "getFullYear d = Y" using Y by simp
    then have "g = gY" "getFullYear d < getFullYear gY1" using g gY gY1 by simp_all
    then show ?thesis
      using False Date_less_year [of d gY1] by (simp add: Date_ge_def)
  qed
next
  assume a: "Date_ge d gY \<and> Date_less d gY1"
  have "\<not> getFullYear d < getFullYear gY"
    using a Date_less_year [of d gY] by (auto simp: Date_ge_def)
  moreover have "getFullYear d \<le> getFullYear gY1"
    using a Date_less_year_le [of d gY1] by simp
  ultimately have "Y \<le> getFullYear d" "getFullYear d \<le> Y + 1"
    using gY gY1 by linarith+
  then consider "getFullYear d = Y" | "getFullYear d = Y + 1" by linarith
  then show "\<exists>w. WuYunLiuQi_new v L d = Inr w \<and> wuyunYear w = Y"
  proof cases
    case 1
    then show ?thesis using a gY by (simp add: WuYunLiuQi_new_Inr Date_ge_def)
  next
    case 2
    then show ?thesis using a gY1 by (simp add: WuYunLiuQi_new_Inr)
  qed
qed

text \<open>
  C3. Let the located Great Cold instants of the years \<open>Y\<close> and \<open>Y + 1\<close> be \<open>gY\<close> and
  \<open>gY1\<close>, each in its own civil year. Then a date resolves to the movement-year \<open>Y\<close>
  exactly when it is on or after \<open>gY\<close> and before \<open>gY1\<close>; the instant \<open>gY\<close> itself
  resolves to \<open>Y\<close>; and a date of the civil year \<open>Y + 1\<close> before \<open>gY1\<close> resolves to the
  year before its civil year. This holds for both locators.
\<close>

theorem movement_year_rule:
  assumes gY: "getExactJieqi v L Y ''dahan'' = Inr gY" "getFullYear gY = Y"
    and gY1: "getExactJieqi v L (Y + 1) ''dahan'' = Inr gY1" "getFullYear gY1 = Y + 1"
  shows "((\<exists>w. WuYunLiuQi_new v L d = Inr w \<and> wuyunYear w = Y)
            \<longleftrightarrow> (Date_ge d gY \<and> Date_less d gY1))
         \<and> (\<exists>w. WuYunLiuQi_new v L gY = Inr w \<and> wuyunYear w = Y)
         \<and> (getFullYear d = Y + 1 \<and> Date_less d gY1
              \<longrightarrow> (\<exists>w. WuYunLiuQi_new v L d = Inr w \<and> wuyunYear w = getFullYear d - 1))"
proof (intro conjI impI)
  show "(\<exists>w. WuYunLiuQi_new v L d = Inr w \<and> wuyunYear w = Y)
          \<longleftrightarrow> (Date_ge d gY \<and> Date_less d gY1)"
    using assms by (rule movement_year_iff)
  show "\<exists>w. WuYunLiuQi_new v L gY = Inr w \<and> wuyunYear w = Y"
    using gY by (simp add: WuYunLiuQi_new_Inr Date_less_irrefl)
  show "\<exists>w. WuYunLiuQi_new v L d = Inr w \<and> wuyunYear w = getFullYear d - 1"
    if "getFullYear d = Y + 1 \<and> Date_less d gY1"
    using that gY1 by (simp add: WuYunLiuQi_new_Inr)
qed

text \<open>The years 1990 and 1991 of \<open>civil_almanac\<close>, and a birth on 15 June 1990.\<close>

theorem movement_year_rule_witness:
  "getExactJieqi HighPrecision civil_almanac 1990 ''dahan'' = Inr (new_Date 1990 0 20 12 0 0)
   \<and> getExactJieqi HighPrecision civil_almanac 1991 ''dahan'' = Inr (new_Date 1991 0 20 12 0 0)
   \<and> Date_ge (new_Date 1990 5 15 12 0 0) (new_Date 1990 0 20 12 0 0)
   \<and> Date_less (new_Date 1990 5 15 12 0 0) (new_Date 1991 0 20 12 0 0)
   \<and> (\<exists>w. WuYunLiuQi_new HighPrecision civil_almanac (new_Date 1990 5 15 12 0 0) = Inr w
          \<and> wuyunYear w = 1990)
   \<and> (\<exists>w. WuYunLiuQi_new HighPrecision civil_almanac (new_Date 1990 0 20 12 0 0) = Inr w
          \<and> wuyunYear w = 1990)"
proof -
  have g: "getExactJieqi HighPrecision civil_almanac 1990 ''dahan''
             = Inr (new_Date 1990 0 20 12 0 0)"
    "getExactJieqi HighPrecision civil_almanac (1990 + 1) ''dahan''
             = Inr (new_Date 1991 0 20 12 0 0)"
    by (simp_all add: civil_almanac_dahan)
  have y: "getFullYear (new_Date 1990 0 20 12 0 0) = 1990"
    "getFullYear (new_Date 1991 0 20 12 0 0) = 1990 + 1"
    by (simp_all add: new_Date_def)
  have o: "Date_ge (new_Date 1990 5 15 12 0 0) (new_Date 1990 0 20 12 0 0)"
    "Date_less (new_Date 1990 5 15 12 0 0) (new_Date 1991 0 20 12 0 0)"
    by (simp_all add: Date_ge_def Date_less_def Date_fields_def new_Date_def)
  show ?thesis
    using movement_year_rule [OF g(1) y(1) g(2) y(2), of "new_Date 1990 5 15 12 0 0"] g o
    by simp
qed

text \<open>
  With the year-checked locator the two assumptions on the civil years hold by themselves
  for every year outside \<open>0, \<dots>, 99\<close>. The single-term locator of \<^verbatim>\<open>server.ts\<close>
  returns whatever year the authority's table holds.
\<close>

lemma movement_year_iff_HighPrecision:
  assumes "getExactJieqi HighPrecision L Y ''dahan'' = Inr gY"
    and "getExactJieqi HighPrecision L (Y + 1) ''dahan'' = Inr gY1"
    and "\<not> (0 \<le> Y \<and> Y \<le> 99)" "\<not> (0 \<le> Y + 1 \<and> Y + 1 \<le> 99)"
  shows "(\<exists>w. WuYunLiuQi_new HighPrecision L d = Inr w \<and> wuyunYear w = Y)
         \<longleftrightarrow> (Date_ge d gY \<and> Date_less d gY1)"
proof -
  have "getFullYear gY = Y"
    using getExactJieqi_HighPrecision_year [of L Y "''dahan''" gY] assms(1,3) by simp
  moreover have "getFullYear gY1 = Y + 1"
    using getExactJieqi_HighPrecision_year [of L "Y + 1" "''dahan''" gY1] assms(2,4)
    by simp
  ultimately show ?thesis using assms(1,2) by (intro movement_year_iff)
qed

section \<open>The profile of a flowing year\<close>

lemma flowYear_of_year:
  assumes "flowYear_of v L T = Inr fy"
    and "getExactJieqi v L T ''dahan'' = Inr dt" "getFullYear dt = T"
  shows "wuyunYear fy = T \<and> stem fy = HeavenlyStem_fromYear v T
         \<and> branch fy = EarthlyBranch_fromYear v T"
  using assms by (auto simp: flowYear_of_def WuYunLiuQi_new_Inr Date_less_irrefl)

text \<open>
  With the year-checked locator, the profile built for a target year outside
  \<open>0, \<dots>, 99\<close> is the profile of that year.
\<close>

lemma flowYear_of_HighPrecision:
  assumes "flowYear_of HighPrecision L T = Inr fy" and "\<not> (0 \<le> T \<and> T \<le> 99)"
  shows "wuyunYear fy = T \<and> stem fy = HeavenlyStem_fromYear HighPrecision T
         \<and> branch fy = EarthlyBranch_fromYear HighPrecision T"
proof -
  obtain dt where dt: "getExactJieqi HighPrecision L T ''dahan'' = Inr dt"
    using assms(1) by (auto simp: flowYear_of_def split: sum.splits)
  then have "getFullYear dt = T"
    using getExactJieqi_HighPrecision_year [of L T "''dahan''" dt] assms(2) by simp
  then show ?thesis using assms(1) dt by (rule_tac flowYear_of_year)
qed

text \<open>
  C10 (the code at two failing inputs). The claim: the profile \<^verbatim>\<open>calculateYearAhi\<close>
  builds for a target year always has that year as its movement-year. With the locator
  of \<^verbatim>\<open>part_002\<close> and the target year 50 the located date is of 1950, and so is the
  profile: its branch is the one of 1950, not the one of the year 50. With the locator
  of \<^verbatim>\<open>server.ts\<close>, which has no year check, and an authority whose table for the
  15th of January still holds last year's Great Cold, the profile for the target year
  2000 is the profile of 1999, with the branch of 1999.
\<close>

theorem flowYear_of_other_year:
  "map_sum id wuyunYear (flowYear_of HighPrecision civil_almanac 50) = Inr 1950
   \<and> map_sum id branch (flowYear_of HighPrecision civil_almanac 50) = Inr (Some YIN)
   \<and> EarthlyBranch_fromYear HighPrecision 50 = Some XU
   \<and> map_sum id wuyunYear (flowYear_of Simple lunar_almanac 2000) = Inr 1999
   \<and> map_sum id branch (flowYear_of Simple lunar_almanac 2000) = Inr (Some MAO)
   \<and> EarthlyBranch_fromYear Simple 2000 = Some CHEN"
  by (simp add: flowYear_of_def WuYunLiuQi_new_def getExactJieqi_HighPrecision_def
        getExactJieqi_Simple_def termMonths_def
        monthMap_def checkMonths_def wrapMonth_def civil_almanac_def lunar_almanac_def
        almanac_entry_def term_days_def Date_of_Solar_def new_Date_def
        Date_less_def Date_fields_def js_index_def signed_modulo_int_def
        EarthlyBranch_list_def)


section \<open>The sixty-point series\<close>

lemma toFixed2_of_int: "toFixed2 (rat_of_int n) = rat_of_int n"
proof -
  have a: "\<lfloor>rat_of_int n * 100 + 1 / 2\<rfloor> = n * 100"
    by (rule floor_unique) simp_all
  have b: "\<lfloor>- rat_of_int n * 100 + 1 / 2\<rfloor> = - n * 100"
    by (rule floor_unique) simp_all
  show ?thesis using a b by (simp add: toFixed2_def)
qed


lemma clamp_max_min: "max 0 (min 100 x) = clamp x 0 100"
  by (simp add: clamp_def max_def min_def)


lemma lifecycleDrift_drift: "lifecycleDrift a = drift a"
  by (simp add: lifecycleDrift_def drift_def)

lemma impact_Inr: "calculateYearAhi v L e y = Inr x \<Longrightarrow> impact v L e y = x"
  by (simp add: impact_def)

lemma kline_loop_done: "60 < a \<Longrightarrow> kline_loop v L e year a cur = Inr []"
  by (subst kline_loop.simps) simp

lemma kline_loop_step:
  assumes "a \<le> 60" and "kline_loop v L e year a cur = Inr pts"
  shows "\<exists>imp rest.
           calculateYearAhi v L e (year + a - 1) = Inr imp
         \<and> kline_loop v L e year (a + 1)
              (clamp (6 / 10 * cur + 4 / 10 * rat_of_int (baseScore e) + imp + drift a) 0 100)
             = Inr rest
         \<and> pts = \<lparr>age = a, open_kp = toFixed2 cur,
                   close_kp = toFixed2
                     (clamp (6 / 10 * cur + 4 / 10 * rat_of_int (baseScore e) + imp + drift a)
                        0 100)\<rparr> # rest"
  using assms(2)
  apply (subst (asm) kline_loop.simps)
  using assms(1)
  by (auto simp add: Let_def clamp_max_min lifecycleDrift_drift mult.commute
        split: sum.splits)

lemma kline_loop_health:
  assumes "nat (61 - a) = n" "1 \<le> a"
    and "kline_loop v L e year a cur = Inr pts"
    and "cur = health v L e year (nat (a - 1))"
  shows "length pts = n
         \<and> (\<forall>i<n. pts ! i = \<lparr>age = a + int i,
                                 open_kp = toFixed2 (health v L e year (nat (a - 1) + i)),
                                 close_kp = toFixed2 (health v L e year (nat a + i))\<rparr>
                     \<and> calculateYearAhi v L e (year + (a + int i) - 1)
                         = Inr (impact v L e (year + (a + int i) - 1)))"
  using assms
proof (induction n arbitrary: a cur pts)
  case 0
  then have "60 < a" by simp
  then show ?case using 0 by (simp add: kline_loop_done)
next
  case (Suc n)
  then have a: "a \<le> 60" by simp
  define cs where
    "cs = clamp (6 / 10 * cur + 4 / 10 * rat_of_int (baseScore e)
                 + impact v L e (year + a - 1) + drift a) 0 100"
  obtain imp rest where c: "calculateYearAhi v L e (year + a - 1) = Inr imp"
    and r: "kline_loop v L e year (a + 1)
              (clamp (6 / 10 * cur + 4 / 10 * rat_of_int (baseScore e) + imp + drift a) 0 100)
            = Inr rest"
    and p: "pts = \<lparr>age = a, open_kp = toFixed2 cur,
                   close_kp = toFixed2
                     (clamp (6 / 10 * cur + 4 / 10 * rat_of_int (baseScore e) + imp + drift a)
                        0 100)\<rparr> # rest"
    using kline_loop_step [OF a Suc.prems(3)] by blast
  have i: "impact v L e (year + a - 1) = imp" using c by (rule impact_Inr)
  have na: "nat a = Suc (nat (a - 1))" using Suc.prems(2) by simp
  have h: "cs = health v L e year (nat a)"
    unfolding cs_def na using Suc.prems(2,4) by simp
  have r': "kline_loop v L e year (a + 1) cs = Inr rest" using r i by (simp add: cs_def)
  have IH: "length rest = n
            \<and> (\<forall>i<n. rest ! i = \<lparr>age = a + 1 + int i,
                                 open_kp = toFixed2 (health v L e year (nat (a + 1 - 1) + i)),
                                 close_kp = toFixed2 (health v L e year (nat (a + 1) + i))\<rparr>
                     \<and> calculateYearAhi v L e (year + (a + 1 + int i) - 1)
                         = Inr (impact v L e (year + (a + 1 + int i) - 1)))"
    using Suc.IH [of "a + 1" cs rest] Suc.prems(1,2) r' h by simp
  have na1: "nat (a + 1) = Suc (nat a)" using Suc.prems(2) by simp
  show ?case
  proof (intro conjI allI impI)
    show "length pts = Suc n" using p IH by simp
  next
    fix j assume j: "j < Suc n"
    show "pts ! j = \<lparr>age = a + int j,
                      open_kp = toFixed2 (health v L e year (nat (a - 1) + j)),
                      close_kp = toFixed2 (health v L e year (nat a + j))\<rparr>"
    proof (cases j)
      case 0
      then show ?thesis using p i h Suc.prems(4) by (simp add: cs_def)
    next
      case (Suc k)
      then have "k < n" using j by simp
      then show ?thesis using IH Suc p na na1 by simp
    qed
    show "calculateYearAhi v L e (year + (a + int j) - 1)
            = Inr (impact v L e (year + (a + int j) - 1))"
    proof (cases j)
      case 0
      then show ?thesis using c i by simp
    next
      case (Suc k)
      then have "k < n" using j by simp
      then show ?thesis using IH Suc by (simp add: algebra_simps)
    qed
  qed
qed


lemma calculate_Inr:
  assumes "calculate v L year month day = Inr r"
  shows "\<exists>e. AHIEngine_new v L (new_Date year (month - 1) day 12 0 0) = Inr e
           \<and> kline_loop v L e year 1 (rat_of_int (baseScore e)) = Inr (kline_data r)
           \<and> base_score r = baseScore e"
  using assms
  by (auto simp: calculate_def Let_def split: if_splits sum.splits)

lemma calculate_points:
  assumes "calculate v L year month day = Inr r"
  shows "\<exists>e. AHIEngine_new v L (new_Date year (month - 1) day 12 0 0) = Inr e
           \<and> base_score r = baseScore e
           \<and> length (kline_data r) = 60
           \<and> (\<forall>i<60. kline_data r ! i
                         = \<lparr>age = 1 + int i,
                            open_kp = toFixed2 (health v L e year i),
                            close_kp = toFixed2 (health v L e year (Suc i))\<rparr>
                       \<and> calculateYearAhi v L e (year + int i)
                           = Inr (impact v L e (year + int i)))"
proof -
  obtain e where e: "AHIEngine_new v L (new_Date year (month - 1) day 12 0 0) = Inr e"
    and k: "kline_loop v L e year 1 (rat_of_int (baseScore e)) = Inr (kline_data r)"
    and b: "base_score r = baseScore e"
    using calculate_Inr [OF assms] by blast
  have H: "length (kline_data r) = 60
        \<and> (\<forall>i<60. kline_data r ! i
                      = \<lparr>age = 1 + int i,
                         open_kp = toFixed2 (health v L e year (nat (1 - 1) + i)),
                         close_kp = toFixed2 (health v L e year (nat 1 + i))\<rparr>
                    \<and> calculateYearAhi v L e (year + (1 + int i) - 1)
                        = Inr (impact v L e (year + (1 + int i) - 1)))"
    by (rule kline_loop_health [where a = 1 and n = 60, OF _ _ k]) simp_all
  have n: "length (kline_data r) = 60" using H by (rule conjunct1)
  have pt: "kline_data r ! i
              = \<lparr>age = 1 + int i,
                 open_kp = toFixed2 (health v L e year i),
                 close_kp = toFixed2 (health v L e year (Suc i))\<rparr>
            \<and> calculateYearAhi v L e (year + int i) = Inr (impact v L e (year + int i))"
    if "i < 60" for i
    using H [THEN conjunct2, rule_format, OF that] by (simp del: health.simps)
  show ?thesis
    by (intro exI [of _ e] conjI allI impI)
       (fact e, fact b, fact n, erule pt [THEN conjunct1], erule pt [THEN conjunct2])
qed



text \<open>
  C6. In the sixty points of an answered request, the open of age 1 is the natal base
  score and the open of every age from 2 to 60 is the close of the age before, as the
  rounded values emitted.
\<close>

theorem kline_open_is_previous_close:
  assumes "calculate v L year month day = Inr r"
  shows "length (kline_data r) = 60
         \<and> open_kp (kline_data r ! 0) = rat_of_int (base_score r)
         \<and> (\<forall>a\<in>{2..60::nat}.
                open_kp (kline_data r ! (a - 1)) = close_kp (kline_data r ! (a - 2)))"
proof -
  obtain e where b: "base_score r = baseScore e"
    and n: "length (kline_data r) = 60"
    and p: "\<And>i. i < 60 \<Longrightarrow>
              kline_data r ! i
                = \<lparr>age = 1 + int i,
                   open_kp = toFixed2 (health v L e year i),
                   close_kp = toFixed2 (health v L e year (Suc i))\<rparr>"
    using calculate_points [OF assms] by blast
  have o: "open_kp (kline_data r ! 0) = rat_of_int (base_score r)"
    using p [of 0] b by (simp add: toFixed2_of_int)
  have s: "open_kp (kline_data r ! (a - 1)) = close_kp (kline_data r ! (a - 2))"
    if a: "a \<in> {2..60}" for a :: nat
  proof -
    define i where "i = a - 2"
    have i: "a - 1 = Suc i" "a - 2 = i" "Suc i < 60" "i < 60"
      using a by (auto simp: i_def)
    show ?thesis unfolding i(1,2) using p [OF i(4)] p [OF i(3)] by simp
  qed
  show ?thesis
    by (intro conjI) (fact n, fact o, rule ballI, rule s)
qed


subsection \<open>The request of a birth on 15 June 1990, with \<open>civil_almanac\<close>\<close>

text \<open>
  With \<open>civil_almanac\<close> and the year-checked locator every calendar year has a
  collision score, so the loop of sixty ages runs to its end.
\<close>

lemma flowYear_of_civil:
  "flowYear_of HighPrecision civil_almanac y
     = Inr \<lparr>targetDate = new_Date y 0 20 12 0 0,
            wuyunYear = getFullYear (new_Date y 0 20 12 0 0),
            stem = HeavenlyStem_fromYear HighPrecision (getFullYear (new_Date y 0 20 12 0 0)),
            branch = EarthlyBranch_fromYear HighPrecision (getFullYear (new_Date y 0 20 12 0 0))\<rparr>"
proof -
  have "new_Date (getFullYear (new_Date y 0 20 12 0 0)) 0 20 12 0 0 = new_Date y 0 20 12 0 0"
    by (simp add: new_Date_def)
  then show ?thesis
    by (simp add: flowYear_of_def WuYunLiuQi_new_def civil_almanac_dahan Date_less_irrefl
          Let_def del: HeavenlyStem_fromYear.simps EarthlyBranch_fromYear.simps)
qed

lemma calculateYearAhi_civil_total:
  "\<exists>x. calculateYearAhi HighPrecision civil_almanac e y = Inr x"
proof -
  obtain fy where fy: "flowYear_of HighPrecision civil_almanac y = Inr fy"
    and "\<exists>st. stem fy = Some st" and "\<exists>br. branch fy = Some br"
    using flowYear_of_civil [of y]
    by (simp add: HeavenlyStem_fromYear_HighPrecision EarthlyBranch_fromYear_HighPrecision
          del: HeavenlyStem_fromYear.simps EarthlyBranch_fromYear.simps)
  then obtain st br where st: "stem fy = Some st" and br: "branch fy = Some br" by blast
  obtain c t where "climatic_loop (branch_char br) mapping = Some \<lparr>celestial = c, terrestrial = t\<rparr>"
    using climatic_loop_total by blast
  then have ce: "getClimaticEffect fy = Inr (Some \<lparr>celestial = c, terrestrial = t\<rparr>)"
    using br by (simp add: getClimaticEffect_def)
  show ?thesis
    using fy st br ce by (simp add: calculateYearAhi_def getGuestFortunes_def Let_def)
qed

lemma kline_loop_total:
  assumes "\<And>y. \<exists>x. calculateYearAhi v L e y = Inr x"
  shows "\<exists>pts. kline_loop v L e year a cur = Inr pts"
proof (induction "nat (61 - a)" arbitrary: a cur)
  case 0
  then show ?case by (simp add: kline_loop_done)
next
  case (Suc n)
  obtain imp where imp: "calculateYearAhi v L e (year + a - 1) = Inr imp"
    using assms by blast
  obtain rest where
    "kline_loop v L e year (a + 1)
       (max 0 (min 100 (cur * (6 / 10) + rat_of_int (baseScore e) * (4 / 10) + imp
                        + lifecycleDrift a))) = Inr rest"
    using Suc.hyps(1) [of "a + 1"] Suc.hyps(2) by fastforce
  then show ?case
    using imp Suc.hyps(2) by (subst kline_loop.simps) (simp add: Let_def)
qed

lemma AHIEngine_new_1990:
  "AHIEngine_new HighPrecision civil_almanac (new_Date 1990 5 15 12 0 0) = Inr engine_1990"
  by (simp add: AHIEngine_new_def WuYunLiuQi_new_def getCurrentFortuneEnums_def
        getCurrentQiEnums_def termOffsets_def qiTerms_def
        getExactJieqi_HighPrecision_def checkMonths_def wrapMonth_def
        civil_almanac_def almanac_entry_def Date_of_Solar_def
        term_days_def monthMap_def
        new_Date_def Date_less_def Date_ge_def Date_fields_def setDate.simps days_in_month_def
        js_index_def signed_modulo_int_def HeavenlyStem_list_def EarthlyBranch_list_def
        getGuestFortunes_def getHostFortunes_def getGuestQiSequence_def getClimaticEffect_def
        mapping_def QiType_previous_pred QiType_list_def calcBaseScore_def engine_1990_def
        Let_def)

lemma calculate_1990: "\<exists>r. calculate HighPrecision civil_almanac 1990 6 15 = Inr r"
proof -
  have w: "\<exists>w. WuYunLiuQi_new HighPrecision civil_almanac (new_Date 1990 5 15 12 0 0) = Inr w"
    by (simp add: WuYunLiuQi_new_def civil_almanac_dahan Let_def)
  obtain pts where
    "kline_loop HighPrecision civil_almanac engine_1990 1990 1
       (rat_of_int (baseScore engine_1990)) = Inr pts"
    using kline_loop_total [OF calculateYearAhi_civil_total] by blast
  then show ?thesis
    using w by (auto simp add: calculate_def AHIEngine_new_1990)
qed

lemma impact_1990:
  "calculateYearAhi HighPrecision civil_almanac engine_1990 1990 = Inr (- (67 / 4))"
  "calculateYearAhi HighPrecision civil_almanac engine_1990 1991 = Inr (583 / 50)"
  "calculateYearAhi HighPrecision civil_almanac engine_1990 1992 = Inr (214 / 25)"
  by (simp_all add: calculateYearAhi_def flowYear_of_civil new_Date_def
        js_index_def signed_modulo_int_def HeavenlyStem_list_def EarthlyBranch_list_def
        getClimaticEffect_def mapping_def getGuestFortunes_def eval_nat_numeral
        suiYunPts_def stepPts_def sqPts1_def sqPts2_def engine_1990_def Let_def)








text \<open>The same request: the opens of the ages 1, 2 and 60.\<close>

theorem kline_open_is_previous_close_witness:
  "\<exists>r. calculate HighPrecision civil_almanac 1990 6 15 = Inr r
       \<and> open_kp (kline_data r ! 0) = rat_of_int (base_score r)
       \<and> open_kp (kline_data r ! 1) = close_kp (kline_data r ! 0)
       \<and> open_kp (kline_data r ! 59) = close_kp (kline_data r ! 58)"
proof -
  obtain r where r: "calculate HighPrecision civil_almanac 1990 6 15 = Inr r"
    using calculate_1990 ..
  have o: "open_kp (kline_data r ! 0) = rat_of_int (base_score r)"
    and s: "\<forall>a\<in>{2..60::nat}.
              open_kp (kline_data r ! (a - 1)) = close_kp (kline_data r ! (a - 2))"
    using kline_open_is_previous_close [OF r] by simp_all
  show ?thesis
    using r o s [rule_format, of 2] s [rule_format, of 60] by simp
qed

section \<open>The collision score of a year\<close>

lemma stepPtsSum_sum: "stepPtsSum e gys acc = acc + sum_list (map (stepPts e) gys)"
  by (induction gys arbitrary: acc) simp_all

lemma guest_elements:
  "map element (guestFortunes_loop 5 0 el adq) = guestMovements el"
  by (simp add: eval_nat_numeral guestMovements_def)

lemma sqPts2_chain: "sqPts2 natalYun cyBranchEl siTianEl = qiPart2 natalYun cyBranchEl siTianEl"
  by (simp add: sqPts2_def qiPart2_def generates_def overcomes_def)

text \<open>
  C2. A score that \<^verbatim>\<open>calculateYearAhi\<close> returns for a target year is
  \<open>0.30 \<times> (0.90 \<times> movementTotal + 0.10 \<times> movementStepAvg)
   + 0.70 \<times> (0.25 \<times> qiPart1 + 0.75 \<times> qiPart2)\<close>
  of the flowing year's stem, branch and climatic effect: \<open>movementTotal\<close> is
  \<open>suiYunPts\<close>, \<open>movementStepAvg\<close> the mean of the scores of the five guest movements,
  \<open>qiPart1\<close> is \<open>sqPts1\<close>, and \<open>qiPart2\<close> the first-match chain \<open>qiPart2\<close>.
\<close>

theorem collision_score_formula:
  assumes "calculateYearAhi v L e targetYear = Inr score"
  shows "\<exists>fy st br ce.
           flowYear_of v L targetYear = Inr fy
         \<and> stem fy = Some st \<and> branch fy = Some br
         \<and> getClimaticEffect fy = Inr (Some ce)
         \<and> score
             = 30 / 100
               * (90 / 100 * rat_of_int (suiYunPts e (stem_element st) (stem_adequacy st))
                  + 10 / 100 * mean (map (stepPts e) (guestMovements (stem_element st))))
             + 70 / 100
               * (25 / 100 * rat_of_int (sqPts1 e (celestial ce) (terrestrial ce))
                  + 75 / 100
                    * rat_of_int (qiPart2 (natalSuiYun e) (branch_element br)
                                    (qi_element (celestial ce))))"
proof -
  obtain fy st br ce where fy: "flowYear_of v L targetYear = Inr fy"
    and st: "stem fy = Some st" and br: "branch fy = Some br"
    and ce: "getClimaticEffect fy = Inr (Some ce)"
    using assms
    by (auto simp: calculateYearAhi_def split: sum.splits option.splits)
  have g: "getGuestFortunes fy
             = Inr (guestFortunes_loop 5 0 (stem_element st) (stem_adequacy st))"
    using st by (simp add: getGuestFortunes_def)
  have m: "rat_of_int (stepPtsSum e (guestMovements (stem_element st)) 0) / 5
             = mean (map (stepPts e) (guestMovements (stem_element st)))"
    by (simp add: stepPtsSum_sum mean_def guestMovements_def)
  have "score
          = (rat_of_int (suiYunPts e (stem_element st) (stem_adequacy st)) * (90 / 100)
             + rat_of_int (stepPtsSum e (guestMovements (stem_element st)) 0) / 5 * (10 / 100))
            * (30 / 100)
          + (rat_of_int (sqPts1 e (celestial ce) (terrestrial ce)) * (25 / 100)
             + rat_of_int (sqPts2 (natalSuiYun e) (branch_element br)
                             (qi_element (celestial ce))) * (75 / 100))
            * (70 / 100)"
    using assms fy st br ce g
    by (simp add: calculateYearAhi_def Let_def guest_elements del: guestFortunes_loop.simps)
  then have "score
          = 30 / 100
            * (90 / 100 * rat_of_int (suiYunPts e (stem_element st) (stem_adequacy st))
               + 10 / 100 * mean (map (stepPts e) (guestMovements (stem_element st))))
          + 70 / 100
            * (25 / 100 * rat_of_int (sqPts1 e (celestial ce) (terrestrial ce))
               + 75 / 100
                 * rat_of_int (qiPart2 (natalSuiYun e) (branch_element br)
                                 (qi_element (celestial ce))))"
    unfolding m [symmetric] sqPts2_chain [symmetric] by (simp only: mult.commute)
  then show ?thesis using fy st br ce by blast
qed

text \<open>
  The flowing year 1990 against the natal profile of 15 June 1990: the parts are 10, 5,
  -28 and -28, and the score is -16.75.
\<close>

theorem collision_score_formula_witness:
  "calculateYearAhi HighPrecision civil_almanac engine_1990 1990 = Inr (- (67 / 4))
   \<and> suiYunPts engine_1990 METAL EXCESS = 10
   \<and> mean (map (stepPts engine_1990) (guestMovements METAL)) = 5
   \<and> sqPts1 engine_1990 MILD_YIN_FIRE MILD_YANG_METAL = - 28
   \<and> qiPart2 METAL FIRE FIRE = - 28
   \<and> (- (67 / 4) :: rat)
       = 30 / 100 * (90 / 100 * 10 + 10 / 100 * 5)
         + 70 / 100 * (25 / 100 * (- 28) + 75 / 100 * (- 28))"
proof -
  have c: "calculateYearAhi HighPrecision civil_almanac engine_1990 1990 = Inr (- (67 / 4))"
    by (rule impact_1990)
  obtain fy st br ce where "flowYear_of HighPrecision civil_almanac 1990 = Inr fy"
    and "stem fy = Some st" and "branch fy = Some br"
    and "getClimaticEffect fy = Inr (Some ce)"
    using collision_score_formula [OF c] by blast
  then have "st = GENG \<and> br = WU_branch
             \<and> ce = \<lparr>celestial = MILD_YIN_FIRE, terrestrial = MILD_YANG_METAL\<rparr>"
    by (auto simp: flowYear_of_civil new_Date_def js_index_def signed_modulo_int_def
          HeavenlyStem_list_def EarthlyBranch_list_def getClimaticEffect_def mapping_def)
  then show ?thesis
    using c
    by (simp add: suiYunPts_def stepPts_def sqPts1_def qiPart2_def generates_def
          overcomes_def mean_def guestMovements_def engine_1990_def)
qed


end
